theory Spec2Isabelle
  imports Main
begin

section \<open>Data model of bot.py\<close>

text \<open>
  A Python \<open>str\<close> is a sequence of Unicode code points and \<open>len\<close> counts code points,
  so a text is a list of code points. The keys \<open>"role"\<close> of the message dictionaries only
  ever hold one of three ASCII literals and are kept as HOL strings.
\<close>

type_synonym pystr = "nat list"

definition ascii :: "string \<Rightarrow> pystr" where
  "ascii s = map of_char s"

text \<open>The dictionaries \<open>{"role": ..., "content": ...}\<close> of lines 31, 37, 44 and 49.\<close>

record message =
  role :: string
  content :: pystr

text \<open>
  The two module-level dictionaries of lines 21 and 22. Every list stored in
  \<open>chat_histories\<close> is created by \<open>setdefault\<close> or by a slice, hence fresh: no two
  identifiers share a list object, and a map of values is an adequate store.
\<close>

record store =
  chat_histories :: "int \<rightharpoonup> message list"
  system_prompts :: "int \<rightharpoonup> pystr"

definition init_store :: store where
  "init_store = \<lparr>chat_histories = Map.empty, system_prompts = Map.empty\<rparr>"

text \<open>
  Exceptions that can leave a function of the program. \<open>KeyError\<close> is what a dictionary
  subscript or \<open>del\<close> raises on a missing key. \<open>SystemExiting\<close> stands for the exceptions
  that derive from \<open>BaseException\<close> but not from \<open>Exception\<close> (KeyboardInterrupt,
  SystemExit), which \<open>except Exception\<close> does not catch.
\<close>

datatype py_exception = KeyError | SystemExiting

section \<open>Dictionary and list primitives of Python\<close>

text \<open>\<open>d.setdefault(k, v)\<close>: stores \<open>v\<close> only when \<open>k\<close> is missing.\<close>

definition setdefault :: "('k \<rightharpoonup> 'v) \<Rightarrow> 'k \<Rightarrow> 'v \<Rightarrow> ('k \<rightharpoonup> 'v)" where
  "setdefault d k v = (case d k of None \<Rightarrow> d(k \<mapsto> v) | Some _ \<Rightarrow> d)"

text \<open>\<open>d[k]\<close>: raises KeyError on a missing key.\<close>

definition getitem :: "('k \<rightharpoonup> 'v) \<Rightarrow> 'k \<Rightarrow> py_exception + 'v" where
  "getitem d k = (case d k of None \<Rightarrow> Inl KeyError | Some v \<Rightarrow> Inr v)"

text \<open>\<open>del d[k]\<close>: raises KeyError on a missing key.\<close>

definition delitem :: "('k \<rightharpoonup> 'v) \<Rightarrow> 'k \<Rightarrow> py_exception + ('k \<rightharpoonup> 'v)" where
  "delitem d k = (case d k of None \<Rightarrow> Inl KeyError | Some _ \<Rightarrow> Inr (d(k := None)))"

text \<open>\<open>d.pop(k, None)\<close>: removes the key when present, never raises.\<close>

definition pop_default :: "('k \<rightharpoonup> 'v) \<Rightarrow> 'k \<Rightarrow> ('k \<rightharpoonup> 'v)" where
  "pop_default d k = d(k := None)"

text \<open>\<open>d.get(k, [])\<close>.\<close>

definition get_default :: "('k \<rightharpoonup> 'v list) \<Rightarrow> 'k \<Rightarrow> 'v list" where
  "get_default d k = (case d k of None \<Rightarrow> [] | Some v \<Rightarrow> v)"

text \<open>
  The slice \<open>xs[-12:]\<close>: the start index is \<open>len(xs) - 12\<close>, clamped to 0 when the list
  is shorter.
\<close>

definition last12 :: "'a list \<Rightarrow> 'a list" where
  "last12 xs = (if length xs \<le> 12 then xs else drop (length xs - 12) xs)"

text \<open>The slice \<open>xs[i:j]\<close> for \<open>0 \<le> i \<le> j\<close>; both ends are clamped to the length.\<close>

definition slice :: "'a list \<Rightarrow> nat \<Rightarrow> nat \<Rightarrow> 'a list" where
  "slice xs i j = take (j - i) (drop i xs)"

text \<open>
  \<open>range(0, n, step)\<close> for a positive step: the multiples of the step below \<open>n\<close>,
  of which there are \<open>(n + step - 1) // step\<close>.
\<close>

definition range_step :: "nat \<Rightarrow> nat \<Rightarrow> nat list" where
  "range_step n step = map (\<lambda>k. k * step) [0 ..< (n + step - 1) div step]"

text \<open>\<open>sep.join(xs)\<close>.\<close>

fun join :: "pystr \<Rightarrow> pystr list \<Rightarrow> pystr" where
  "join sep [] = []"
| "join sep [x] = x"
| "join sep (x # y # ys) = x @ sep @ join sep (y # ys)"

text \<open>
  \<open>s.strip()\<close> without argument removes leading and trailing whitespace, which for a
  \<open>str\<close> is the code points for which \<open>str.isspace\<close> holds.
\<close>

definition is_space :: "nat \<Rightarrow> bool" where
  "is_space c \<longleftrightarrow>
     (9 \<le> c \<and> c \<le> 13) \<or> (28 \<le> c \<and> c \<le> 32) \<or> c = 133 \<or> c = 160 \<or> c = 5760 \<or>
     (8192 \<le> c \<and> c \<le> 8202) \<or> c = 8232 \<or> c = 8233 \<or> c = 8239 \<or> c = 8287 \<or> c = 12288"

definition strip :: "pystr \<Rightarrow> pystr" where
  "strip s = rev (dropWhile is_space (rev (dropWhile is_space s)))"

section \<open>Helpers (lines 29 to 50)\<close>

text \<open>
  A function that mutates the store returns the store as it leaves it, together with
  the exception it raises, if any: the dictionaries are module-level, so what was
  written before a raise stays written.

  \<open>add_user_message\<close>, statement by statement: \<open>setdefault\<close>, then \<open>append\<close> on the list
  read by subscript (in place, so the dictionary sees it), then the slice of the list
  read by subscript, stored back.
\<close>

definition add_user_message :: "store \<Rightarrow> int \<Rightarrow> pystr \<Rightarrow> store \<times> py_exception option" where
  "add_user_message s chat_id txt =
     (let s = s\<lparr>chat_histories := setdefault (chat_histories s) chat_id []\<rparr> in
      case getitem (chat_histories s) chat_id of
        Inl e \<Rightarrow> (s, Some e)
      | Inr h \<Rightarrow>
          (let s = s\<lparr>chat_histories :=
                     (chat_histories s)(chat_id \<mapsto> h @ [\<lparr>role = ''user'', content = txt\<rparr>])\<rparr> in
           case getitem (chat_histories s) chat_id of
             Inl e \<Rightarrow> (s, Some e)
           | Inr h \<Rightarrow> (s\<lparr>chat_histories := (chat_histories s)(chat_id \<mapsto> last12 h)\<rparr>, None)))"

definition add_assistant_message :: "store \<Rightarrow> int \<Rightarrow> pystr \<Rightarrow> store \<times> py_exception option" where
  "add_assistant_message s chat_id txt =
     (let s = s\<lparr>chat_histories := setdefault (chat_histories s) chat_id []\<rparr> in
      case getitem (chat_histories s) chat_id of
        Inl e \<Rightarrow> (s, Some e)
      | Inr h \<Rightarrow>
          (let s = s\<lparr>chat_histories :=
                     (chat_histories s)(chat_id \<mapsto> h @ [\<lparr>role = ''assistant'', content = txt\<rparr>])\<rparr> in
           case getitem (chat_histories s) chat_id of
             Inl e \<Rightarrow> (s, Some e)
           | Inr h \<Rightarrow> (s\<lparr>chat_histories := (chat_histories s)(chat_id \<mapsto> last12 h)\<rparr>, None)))"

text \<open>
  \<open>build_messages\<close> builds a fresh list \<open>msgs\<close>; it returns the list together with the
  store as it leaves it. Line 43 tests membership before line 44 reads the prompt.
\<close>

definition build_messages :: "store \<Rightarrow> int \<Rightarrow> pystr \<Rightarrow> message list \<times> store" where
  "build_messages s chat_id user_text =
     (let msgs = [];
          msgs = (case system_prompts s chat_id of
                    Some p \<Rightarrow> msgs @ [\<lparr>role = ''system'', content = p\<rparr>]
                  | None \<Rightarrow> msgs);
          history = get_default (chat_histories s) chat_id;
          msgs = msgs @ history;
          msgs = msgs @ [\<lparr>role = ''user'', content = user_text\<rparr>]
      in (msgs, s))"

text \<open>
  The stored history of an identifier as the program reads it (line 46):
  \<open>chat_histories.get(chat_id, [])\<close>.
\<close>

definition get_history :: "store \<Rightarrow> int \<Rightarrow> message list" where
  "get_history s chat_id = get_default (chat_histories s) chat_id"

section \<open>Handlers (lines 69 to 120)\<close>

text \<open>
  What a handler does to the outside world, in order: the chat action, the request to the
  completion API, the logged exception, and the texts sent with \<open>reply_text\<close>. The calls
  to the messaging platform are taken to succeed. A handler only suspends at these
  calls to the platform, which come before its first and after its last access to the
  store, and the completion call is synchronous: a handler's accesses to the store are
  not interleaved with another handler's.
\<close>

record request =
  model :: string
  messages :: "message list"
  max_tokens :: nat

datatype event =
    SendAction string
  | CompletionCreate request
  | LogException string
  | ReplyText pystr

text \<open>
  A handler's run: what it did, the store it leaves, and the exception that left it
  (\<open>None\<close> when it returned).
\<close>

type_synonym run = "event list \<times> store \<times> py_exception option"

text \<open>\<open>setprompt\<close>: \<open>context.args\<close> is the list of tokens after the command.\<close>

definition setprompt :: "store \<Rightarrow> int \<Rightarrow> pystr list \<Rightarrow> run" where
  "setprompt s chat_id args =
     (if args = [] then ([ReplyText (ascii ''Use: /setprompt <your instruction>'')], s, None)
      else
        (let prompt = join (ascii '' '') args;
             s = s\<lparr>system_prompts := (system_prompts s)(chat_id \<mapsto> prompt)\<rparr>
         in ([ReplyText (ascii ''System prompt set for this chat.'')], s, None)))"

definition clearprompt :: "store \<Rightarrow> int \<Rightarrow> run" where
  "clearprompt s chat_id =
     (if system_prompts s chat_id \<noteq> None then
        (case delitem (system_prompts s) chat_id of
           Inl e \<Rightarrow> ([], s, Some e)
         | Inr d \<Rightarrow>
             ([ReplyText (ascii ''System prompt removed (if any).'')],
              s\<lparr>system_prompts := d\<rparr>, None))
      else ([ReplyText (ascii ''System prompt removed (if any).'')], s, None))"

definition clear_history :: "store \<Rightarrow> int \<Rightarrow> run" where
  "clear_history s chat_id =
     (let s = s\<lparr>chat_histories := pop_default (chat_histories s) chat_id\<rparr>
      in ([ReplyText (ascii ''Conversation history cleared.'')], s, None))"

text \<open>
  The outcome of the body of the \<open>try\<close> of lines 104 to 111 up to the read of
  \<open>resp.choices[0].message.content\<close>: the content, which the client types as an optional
  string; an exception deriving from \<open>Exception\<close>, with its \<open>str(e)\<close>; or an exception
  that \<open>except Exception\<close> does not catch.
\<close>

datatype api_outcome = Content "pystr option" | Raised pystr | Aborted

text \<open>The literal of line 114, as code points.\<close>

definition failure_prefix :: pystr where
  "failure_prefix =
     [2470, 2497, 2435, 2454, 2495, 2468, 44, 32, 2488, 2494, 2480, 2509, 2477, 2494, 2480,
      32, 101, 114, 114, 111, 114, 32, 2489, 2482, 2507, 58, 32]"

text \<open>
  \<open>str(e)\<close> of the AttributeError that \<open>None.strip()\<close> raises; 39 is the apostrophe.
\<close>

definition none_strip_error :: pystr where
  "none_strip_error =
     [39] @ ascii ''NoneType'' @ [39] @ ascii '' object has no attribute '' @
     [39] @ ascii ''strip'' @ [39]"

text \<open>
  The \<open>try\<close> statement of lines 102 to 114: the events it adds and the reply it binds,
  or the exception it lets through. \<open>None.strip()\<close> raises inside the \<open>try\<close> and is
  caught like any other \<open>Exception\<close>.
\<close>

definition reply_of :: "api_outcome \<Rightarrow> py_exception + event list \<times> pystr" where
  "reply_of out =
     (case out of
        Content (Some c) \<Rightarrow> Inr ([], strip c)
      | Content None \<Rightarrow> Inr ([LogException ''OpenAI error''], failure_prefix @ none_strip_error)
      | Raised e \<Rightarrow> Inr ([LogException ''OpenAI error''], failure_prefix @ e)
      | Aborted \<Rightarrow> Inl SystemExiting)"

text \<open>The list comprehension of line 119.\<close>

definition chunks :: "pystr \<Rightarrow> pystr list" where
  "chunks reply = map (\<lambda>i. slice reply i (i + 3900)) (range_step (length reply) 3900)"

text \<open>
  \<open>handle_message\<close>. The completion API is a parameter; the request it receives is the
  one of lines 104 to 109, without the temperature 0.6.
\<close>

definition handle_message :: "(request \<Rightarrow> api_outcome) \<Rightarrow> store \<Rightarrow> int \<Rightarrow> pystr \<Rightarrow> run" where
  "handle_message api s chat_id user_text =
     (let ev = [SendAction ''typing''] in
      case add_user_message s chat_id user_text of
        (s, Some e) \<Rightarrow> (ev, s, Some e)
      | (s, None) \<Rightarrow>
          (let (msgs, s) = build_messages s chat_id user_text;
               req = \<lparr>model = ''gpt-3.5-turbo'', messages = msgs, max_tokens = 800\<rparr>;
               ev = ev @ [CompletionCreate req]
           in case reply_of (api req) of
                Inl e \<Rightarrow> (ev, s, Some e)
              | Inr (logged, reply) \<Rightarrow>
                  (let ev = ev @ logged in
                   case add_assistant_message s chat_id reply of
                     (s, Some e) \<Rightarrow> (ev, s, Some e)
                   | (s, None) \<Rightarrow> (ev @ map ReplyText (chunks reply), s, None))))"

text \<open>
  The request that \<open>handle_message\<close> hands to the completion API for a store, an
  identifier and a text (lines 97 to 109): it names the request in the statements about
  what the API answers.
\<close>

abbreviation request_for :: "store \<Rightarrow> int \<Rightarrow> pystr \<Rightarrow> request" where
  "request_for s chat_id user_text \<equiv>
     \<lparr>model = ''gpt-3.5-turbo'',
      messages = fst (build_messages (fst (add_user_message s chat_id user_text)) chat_id user_text),
      max_tokens = 800\<rparr>"

text \<open>A sequence of calls of the two append helpers, stopped by the first exception.\<close>

datatype append_call = AddUser int pystr | AddAssistant int pystr

fun run_appends :: "store \<Rightarrow> append_call list \<Rightarrow> store \<times> py_exception option" where
  "run_appends s [] = (s, None)"
| "run_appends s (AddUser chat_id txt # cs) =
     (case add_user_message s chat_id txt of
        (s', Some e) \<Rightarrow> (s', Some e)
      | (s', None) \<Rightarrow> run_appends s' cs)"
| "run_appends s (AddAssistant chat_id txt # cs) =
     (case add_assistant_message s chat_id txt of
        (s', Some e) \<Rightarrow> (s', Some e)
      | (s', None) \<Rightarrow> run_appends s' cs)"

section \<open>Slices and chunks\<close>

lemma length_last12: "length (last12 xs) \<le> 12"
  by (simp add: last12_def)

lemma last12_short: "length xs \<le> 12 \<Longrightarrow> last12 xs = xs"
  by (simp add: last12_def)

lemma last12_append: "last12 (last12 xs @ ys) = last12 (xs @ ys)"
  by (auto simp: last12_def add.commute)

lemma last12_full: "length xs = 12 \<Longrightarrow> last12 (xs @ [x]) = tl xs @ [x]"
  by (cases xs) (simp_all add: last12_def)

lemma last_last12: "last (last12 (xs @ [x])) = x"
  by (simp add: last12_def)

lemma take_chunks:
  "concat (map (\<lambda>k. take c (drop (k * c) xs)) [0 ..< m]) = take (m * c) xs"
proof (induction m)
  case 0
  then show ?case by simp
next
  case (Suc m)
  have "take (m * c) xs @ take c (drop (m * c) xs) = take (m * c + c) xs"
    by (simp add: take_add)
  with Suc show ?case by (simp add: add.commute)
qed

lemma chunks_eq:
  "chunks reply =
     map (\<lambda>k. take 3900 (drop (k * 3900) reply)) [0 ..< (length reply + 3899) div 3900]"
  by (simp add: chunks_def slice_def range_step_def comp_def add.commute)

lemma length_chunks: "length (chunks reply) = (length reply + 3899) div 3900"
  by (simp add: chunks_eq)

lemma concat_chunks: "concat (chunks reply) = reply"
proof -
  have "length reply \<le> (length reply + 3899) div 3900 * 3900"
    by arith
  then show ?thesis
    by (simp add: chunks_eq take_chunks)
qed

lemma chunks_nth:
  "k < length (chunks reply) \<Longrightarrow> chunks reply ! k = take 3900 (drop (k * 3900) reply)"
  by (simp add: chunks_eq)

lemma chunks_full:
  assumes "Suc k < length (chunks reply)"
  shows "length (chunks reply ! k) = 3900"
proof -
  from assms have "Suc k < (length reply + 3899) div 3900"
    by (simp add: length_chunks)
  then have "k * 3900 + 3900 \<le> length reply"
    by arith
  moreover have "k < length (chunks reply)"
    using assms by simp
  ultimately show ?thesis
    by (simp add: chunks_nth)
qed

lemma chunks_bounds:
  assumes "c \<in> set (chunks reply)"
  shows "0 < length c \<and> length c \<le> 3900"
proof -
  from assms obtain k where k: "k < length (chunks reply)" and c: "c = chunks reply ! k"
    by (auto simp: in_set_conv_nth)
  from k have "k < (length reply + 3899) div 3900"
    by (simp add: length_chunks)
  then have "k * 3900 < length reply"
    by arith
  with k c show ?thesis
    by (simp add: chunks_nth)
qed

lemma chunks_8000:
  assumes "length reply = 8000"
  shows "map length (chunks reply) = [3900, 3900, 200]"
proof -
  have "[0 ..< (8000 + 3899) div 3900] = [0, 1, 2]"
    by (simp add: upt_rec)
  then show ?thesis
    by (simp add: chunks_eq assms)
qed

lemma chunks_empty_iff: "chunks reply = [] \<longleftrightarrow> reply = []"
proof -
  have "(length reply + 3899) div 3900 = 0 \<longleftrightarrow> length reply = 0"
    by arith
  then show ?thesis
    using length_chunks [of reply] by (metis length_0_conv)
qed

section \<open>What the helpers and the relay handler compute\<close>

lemma add_user_message_eq:
  "add_user_message s chat_id txt =
     (s\<lparr>chat_histories := (chat_histories s)
          (chat_id \<mapsto> last12 (get_history s chat_id @ [\<lparr>role = ''user'', content = txt\<rparr>]))\<rparr>, None)"
  by (simp add: add_user_message_def setdefault_def getitem_def get_history_def get_default_def
      split: option.splits)

lemma add_assistant_message_eq:
  "add_assistant_message s chat_id txt =
     (s\<lparr>chat_histories := (chat_histories s)
          (chat_id \<mapsto> last12 (get_history s chat_id @ [\<lparr>role = ''assistant'', content = txt\<rparr>]))\<rparr>, None)"
  by (simp add: add_assistant_message_def setdefault_def getitem_def get_history_def get_default_def
      split: option.splits)

lemma get_history_upd:
  "get_history (s\<lparr>chat_histories := (chat_histories s)(c \<mapsto> h)\<rparr>) c' =
     (if c' = c then h else get_history s c')"
  by (simp add: get_history_def get_default_def)

lemma get_history_init: "get_history init_store c = []"
  by (simp add: get_history_def get_default_def init_store_def)

lemma get_history_add_user:
  "get_history (fst (add_user_message s c txt)) c =
     last12 (get_history s c @ [\<lparr>role = ''user'', content = txt\<rparr>])"
  by (simp add: add_user_message_eq get_history_upd)

lemma get_history_add_assistant:
  "get_history (fst (add_assistant_message s c txt)) c =
     last12 (get_history s c @ [\<lparr>role = ''assistant'', content = txt\<rparr>])"
  by (simp add: add_assistant_message_eq get_history_upd)

lemma build_messages_eq:
  "build_messages s chat_id user_text =
     ((case system_prompts s chat_id of
         None \<Rightarrow> []
       | Some p \<Rightarrow> [\<lparr>role = ''system'', content = p\<rparr>]) @
      get_history s chat_id @ [\<lparr>role = ''user'', content = user_text\<rparr>], s)"
  by (simp add: build_messages_def get_history_def split: option.splits)

lemma handle_message_eq:
  "handle_message api s chat_id user_text =
     (case reply_of (api (request_for s chat_id user_text)) of
        Inl e \<Rightarrow>
          ([SendAction ''typing'', CompletionCreate (request_for s chat_id user_text)],
           fst (add_user_message s chat_id user_text), Some e)
      | Inr (logged, reply) \<Rightarrow>
          ([SendAction ''typing'', CompletionCreate (request_for s chat_id user_text)] @ logged @
             map ReplyText (chunks reply),
           fst (add_assistant_message (fst (add_user_message s chat_id user_text)) chat_id reply),
           None))"
  by (simp add: handle_message_def add_user_message_eq add_assistant_message_eq build_messages_eq
      Let_def split: sum.splits prod.splits)

lemma handle_message_aborted:
  assumes "api (request_for s chat_id user_text) = Aborted"
  shows "handle_message api s chat_id user_text =
     ([SendAction ''typing'', CompletionCreate (request_for s chat_id user_text)],
      fst (add_user_message s chat_id user_text), Some SystemExiting)"
  unfolding handle_message_eq by (simp add: assms reply_of_def)

lemma reply_of_logged:
  "reply_of out = Inr (logged, reply) \<Longrightarrow> ReplyText x \<notin> set logged"
  by (auto simp: reply_of_def split: api_outcome.splits option.splits)

lemma run_appends_bounded:
  "\<forall>c. length (get_history s c) \<le> 12 \<Longrightarrow>
   snd (run_appends s cs) = None \<and> (\<forall>c. length (get_history (fst (run_appends s cs)) c) \<le> 12)"
proof (induction cs arbitrary: s)
  case Nil
  then show ?case by simp
next
  case (Cons a cs)
  show ?case
  proof (cases a)
    case (AddUser c t)
    let ?s = "fst (add_user_message s c t)"
    have "\<forall>c'. length (get_history ?s c') \<le> 12"
      using Cons.prems by (simp add: add_user_message_eq get_history_upd length_last12)
    from Cons.IH [OF this] show ?thesis
      using AddUser by (simp add: add_user_message_eq)
  next
    case (AddAssistant c t)
    let ?s = "fst (add_assistant_message s c t)"
    have "\<forall>c'. length (get_history ?s c') \<le> 12"
      using Cons.prems by (simp add: add_assistant_message_eq get_history_upd length_last12)
    from Cons.IH [OF this] show ?thesis
      using AddAssistant by (simp add: add_assistant_message_eq)
  qed
qed

lemma run_appends_users:
  "run_appends s (map (AddUser c) ts) =
     (if ts = [] then s
      else s\<lparr>chat_histories := (chat_histories s)
              (c \<mapsto> last12 (get_history s c @ map (\<lambda>t. \<lparr>role = ''user'', content = t\<rparr>) ts))\<rparr>,
      None)"
proof (induction ts arbitrary: s)
  case Nil
  then show ?case by simp
next
  case (Cons t ts)
  let ?m = "\<lparr>role = ''user'', content = t\<rparr>"
  let ?s1 = "s\<lparr>chat_histories := (chat_histories s)(c \<mapsto> last12 (get_history s c @ [?m]))\<rparr>"
  have step: "run_appends s (map (AddUser c) (t # ts)) = run_appends ?s1 (map (AddUser c) ts)"
    by (simp add: add_user_message_eq)
  show ?case
    unfolding step Cons.IH [of ?s1]
    by (simp add: get_history_upd last12_append)
qed

section \<open>The bounded history\<close>

text \<open>
  Claim C1. Each of the two append helpers returns without raising and leaves at most 12
  turns in the history of the identifier it appended to, whatever the store was before;
  and after any sequence of appends from the empty store of the program's start, no
  append has raised and the history of every identifier holds at most 12 turns.
\<close>

theorem history_bounded:
  "snd (add_user_message s chat_id txt) = None \<and>
   length (get_history (fst (add_user_message s chat_id txt)) chat_id) \<le> 12 \<and>
   snd (add_assistant_message s chat_id txt) = None \<and>
   length (get_history (fst (add_assistant_message s chat_id txt)) chat_id) \<le> 12 \<and>
   snd (run_appends init_store calls) = None \<and>
   length (get_history (fst (run_appends init_store calls)) chat_id) \<le> 12"
  using run_appends_bounded [of init_store calls]
  by (simp add: add_user_message_eq add_assistant_message_eq get_history_upd length_last12
      get_history_init)

text \<open>
  Claim C2. Truncation is first in, first out: on a history of 12 turns an append
  (of either role) stores the old history without its first turn, followed by the new
  turn; and 13 user appends of the texts m1 to m13 to one identifier, from any store,
  leave the 12 user turns m2 to m13, in order.
\<close>

theorem fifo_truncation:
  "(length (get_history s chat_id) = 12 \<longrightarrow>
      add_user_message s chat_id txt =
        (s\<lparr>chat_histories := (chat_histories s)
             (chat_id \<mapsto> tl (get_history s chat_id) @ [\<lparr>role = ''user'', content = txt\<rparr>])\<rparr>, None) \<and>
      add_assistant_message s chat_id txt =
        (s\<lparr>chat_histories := (chat_histories s)
             (chat_id \<mapsto> tl (get_history s chat_id) @ [\<lparr>role = ''assistant'', content = txt\<rparr>])\<rparr>, None)) \<and>
   snd (run_appends s (map (\<lambda>t. AddUser chat_id (ascii t))
          [''m1'', ''m2'', ''m3'', ''m4'', ''m5'', ''m6'', ''m7'', ''m8'', ''m9'', ''m10'',
           ''m11'', ''m12'', ''m13''])) = None \<and>
   get_history (fst (run_appends s (map (\<lambda>t. AddUser chat_id (ascii t))
          [''m1'', ''m2'', ''m3'', ''m4'', ''m5'', ''m6'', ''m7'', ''m8'', ''m9'', ''m10'',
           ''m11'', ''m12'', ''m13'']))) chat_id =
     map (\<lambda>t. \<lparr>role = ''user'', content = ascii t\<rparr>)
          [''m2'', ''m3'', ''m4'', ''m5'', ''m6'', ''m7'', ''m8'', ''m9'', ''m10'',
           ''m11'', ''m12'', ''m13'']"
proof -
  let ?ts = "map ascii [''m1'', ''m2'', ''m3'', ''m4'', ''m5'', ''m6'', ''m7'', ''m8'', ''m9'',
     ''m10'', ''m11'', ''m12'', ''m13'']"
  have m: "map (\<lambda>t. AddUser chat_id (ascii t))
          [''m1'', ''m2'', ''m3'', ''m4'', ''m5'', ''m6'', ''m7'', ''m8'', ''m9'', ''m10'',
           ''m11'', ''m12'', ''m13''] = map (AddUser chat_id) ?ts"
    by simp
  have l: "last12 (h @ map (\<lambda>t. \<lparr>role = ''user'', content = t\<rparr>) ?ts) =
      map (\<lambda>t. \<lparr>role = ''user'', content = ascii t\<rparr>)
          [''m2'', ''m3'', ''m4'', ''m5'', ''m6'', ''m7'', ''m8'', ''m9'', ''m10'',
           ''m11'', ''m12'', ''m13'']" for h :: "message list"
    by (simp add: last12_def)
  have r: "run_appends s (map (AddUser chat_id) ?ts) =
      (s\<lparr>chat_histories := (chat_histories s)
              (chat_id \<mapsto> last12 (get_history s chat_id @ map (\<lambda>t. \<lparr>role = ''user'', content = t\<rparr>) ?ts))\<rparr>,
      None)"
    by (subst run_appends_users) simp
  show ?thesis
    unfolding m r l
    by (simp add: add_user_message_eq add_assistant_message_eq last12_full get_history_upd)
qed

theorem fifo_truncation_witness:
  "length (get_history
      \<lparr>chat_histories = [42 \<mapsto> map (\<lambda>t. \<lparr>role = ''user'', content = ascii t\<rparr>)
         [''m1'', ''m2'', ''m3'', ''m4'', ''m5'', ''m6'', ''m7'', ''m8'', ''m9'', ''m10'',
          ''m11'', ''m12'']],
       system_prompts = Map.empty\<rparr> 42) = 12 \<and>
   get_history (fst (add_user_message
      \<lparr>chat_histories = [42 \<mapsto> map (\<lambda>t. \<lparr>role = ''user'', content = ascii t\<rparr>)
         [''m1'', ''m2'', ''m3'', ''m4'', ''m5'', ''m6'', ''m7'', ''m8'', ''m9'', ''m10'',
          ''m11'', ''m12'']],
       system_prompts = Map.empty\<rparr> 42 (ascii ''m13''))) 42 =
     map (\<lambda>t. \<lparr>role = ''user'', content = ascii t\<rparr>)
         [''m2'', ''m3'', ''m4'', ''m5'', ''m6'', ''m7'', ''m8'', ''m9'', ''m10'',
          ''m11'', ''m12'', ''m13'']"
  using fifo_truncation [of
      "\<lparr>chat_histories = [42 \<mapsto> map (\<lambda>t. \<lparr>role = ''user'', content = ascii t\<rparr>)
         [''m1'', ''m2'', ''m3'', ''m4'', ''m5'', ''m6'', ''m7'', ''m8'', ''m9'', ''m10'',
          ''m11'', ''m12'']],
       system_prompts = Map.empty\<rparr>" 42 "ascii ''m13''"]
  by (simp add: get_history_def get_default_def)

section \<open>Prompt assembly\<close>

text \<open>
  Claim C3. \<open>build_messages\<close> returns the system entry when a prompt is stored for the
  identifier, then the stored history in its order with its roles, then the new user
  text as a user entry, and it returns the store as it found it; with no prompt stored
  the result is the history followed by the user entry and nothing else.
\<close>

theorem build_messages_order:
  "build_messages s chat_id user_text =
     ((case system_prompts s chat_id of
         None \<Rightarrow> []
       | Some p \<Rightarrow> [\<lparr>role = ''system'', content = p\<rparr>]) @
      get_history s chat_id @ [\<lparr>role = ''user'', content = user_text\<rparr>], s) \<and>
   (system_prompts s chat_id = None \<longrightarrow>
      fst (build_messages s chat_id user_text) =
        get_history s chat_id @ [\<lparr>role = ''user'', content = user_text\<rparr>] \<and>
      length (fst (build_messages s chat_id user_text)) = length (get_history s chat_id) + 1)"
  by (simp add: build_messages_eq)

theorem build_messages_order_witness:
  "system_prompts \<lparr>chat_histories = [5 \<mapsto> [\<lparr>role = ''user'', content = ascii ''hi''\<rparr>,
                                             \<lparr>role = ''assistant'', content = ascii ''yo''\<rparr>]],
                    system_prompts = Map.empty\<rparr> 5 = None \<and>
   fst (build_messages \<lparr>chat_histories = [5 \<mapsto> [\<lparr>role = ''user'', content = ascii ''hi''\<rparr>,
                                             \<lparr>role = ''assistant'', content = ascii ''yo''\<rparr>]],
                    system_prompts = Map.empty\<rparr> 5 (ascii ''ok'')) =
     [\<lparr>role = ''user'', content = ascii ''hi''\<rparr>, \<lparr>role = ''assistant'', content = ascii ''yo''\<rparr>,
      \<lparr>role = ''user'', content = ascii ''ok''\<rparr>]"
  using build_messages_order [of
      "\<lparr>chat_histories = [5 \<mapsto> [\<lparr>role = ''user'', content = ascii ''hi''\<rparr>,
                                \<lparr>role = ''assistant'', content = ascii ''yo''\<rparr>]],
        system_prompts = Map.empty\<rparr>" 5 "ascii ''ok''"]
  by (simp add: get_history_def get_default_def)

section \<open>The relay handler\<close>

text \<open>
  Claim C4. When the completion call raises an exception that derives from
  \<open>Exception\<close> (or hands back no content, so that \<open>strip\<close> raises), \<open>handle_message\<close>
  returns without an exception: it logs, the reply is the literal of line 114 followed
  by the text of the exception, that reply is sent in chunks, and it is the assistant
  turn appended to the history, which it ends.
\<close>

theorem completion_failure_recovered:
  assumes "api (request_for s chat_id user_text) = Raised e \<or>
           api (request_for s chat_id user_text) = Content None \<and> e = none_strip_error"
  shows "snd (snd (handle_message api s chat_id user_text)) = None \<and>
    fst (handle_message api s chat_id user_text) =
      [SendAction ''typing'', CompletionCreate (request_for s chat_id user_text),
       LogException ''OpenAI error''] @
      map ReplyText (chunks (failure_prefix @ e)) \<and>
    get_history (fst (snd (handle_message api s chat_id user_text))) chat_id =
      last12 (get_history (fst (add_user_message s chat_id user_text)) chat_id @
              [\<lparr>role = ''assistant'', content = failure_prefix @ e\<rparr>]) \<and>
    last (get_history (fst (snd (handle_message api s chat_id user_text))) chat_id) =
      \<lparr>role = ''assistant'', content = failure_prefix @ e\<rparr>"
proof -
  from assms have "reply_of (api (request_for s chat_id user_text)) =
      Inr ([LogException ''OpenAI error''], failure_prefix @ e)"
    by (auto simp: reply_of_def)
  then show ?thesis
    unfolding handle_message_eq
    by (simp add: get_history_add_assistant last_last12)
qed

theorem completion_failure_recovered_witness:
  "(\<lambda>_. Raised (ascii ''timeout'')) (request_for init_store 42 (ascii ''hello'')) =
     Raised (ascii ''timeout'') \<and>
   snd (snd (handle_message (\<lambda>_. Raised (ascii ''timeout'')) init_store 42 (ascii ''hello''))) = None \<and>
   get_history (fst (snd (handle_message (\<lambda>_. Raised (ascii ''timeout'')) init_store 42
       (ascii ''hello'')))) 42 =
     [\<lparr>role = ''user'', content = ascii ''hello''\<rparr>,
      \<lparr>role = ''assistant'', content = failure_prefix @ ascii ''timeout''\<rparr>]"
proof -
  have h: "(\<lambda>_. Raised (ascii ''timeout'')) (request_for init_store 42 (ascii ''hello'')) =
       Raised (ascii ''timeout'') \<or>
     (\<lambda>_. Raised (ascii ''timeout'')) (request_for init_store 42 (ascii ''hello'')) =
       Content None \<and> ascii ''timeout'' = none_strip_error"
    by simp
  show ?thesis
    using completion_failure_recovered [OF h]
    by (simp add: get_history_add_user get_history_init last12_def)
qed

text \<open>
  Claim C5. The chunks of a reply concatenate to the reply; each is non-empty and has at
  most 3900 characters; the chunk of index k is the 3900 characters from position
  3900 k on; every chunk but the last has exactly 3900; and a reply of 8000 characters
  gives chunks of lengths 3900, 3900 and 200.
\<close>

theorem chunk_splitting:
  "concat (chunks reply) = reply \<and>
   (\<forall>c \<in> set (chunks reply). 0 < length c \<and> length c \<le> 3900) \<and>
   (\<forall>k < length (chunks reply). chunks reply ! k = take 3900 (drop (k * 3900) reply)) \<and>
   (\<forall>k. Suc k < length (chunks reply) \<longrightarrow> length (chunks reply ! k) = 3900) \<and>
   (length reply = 8000 \<longrightarrow> map length (chunks reply) = [3900, 3900, 200])"
proof (intro conjI)
  show "concat (chunks reply) = reply"
    by (rule concat_chunks)
  show "\<forall>c \<in> set (chunks reply). 0 < length c \<and> length c \<le> 3900"
    using chunks_bounds by blast
  show "\<forall>k < length (chunks reply). chunks reply ! k = take 3900 (drop (k * 3900) reply)"
    using chunks_nth by blast
  show "\<forall>k. Suc k < length (chunks reply) \<longrightarrow> length (chunks reply ! k) = 3900"
    using chunks_full by blast
  show "length reply = 8000 \<longrightarrow> map length (chunks reply) = [3900, 3900, 200]"
    using chunks_8000 by blast
qed

theorem chunk_splitting_witness:
  "length (replicate 8000 (120::nat)) = 8000 \<and>
   concat (chunks (replicate 8000 120)) = replicate 8000 120 \<and>
   map length (chunks (replicate 8000 120)) = [3900, 3900, 200] \<and>
   length (chunks (replicate 8000 120) ! 0) = 3900 \<and>
   chunks (replicate 8000 120) ! 2 = replicate 200 120"
proof -
  let ?r = "replicate 8000 (120::nat)"
  note t = chunk_splitting [of ?r]
  have len: "map length (chunks ?r) = [3900, 3900, 200]"
    using t by simp
  then have n: "length (chunks ?r) = 3"
    by (metis length_map length_Cons list.size(3) numeral_3_eq_3)
  have "chunks ?r ! 2 = take 3900 (drop (2 * 3900) ?r)"
    using t n by simp
  moreover have "length (chunks ?r ! 0) = 3900"
    using t n by simp
  ultimately show ?thesis
    using t len by simp
qed

text \<open>
  Claim C9. Whatever the store and the completion API, \<open>handle_message\<close> makes one
  request to the API, right after the chat action, and the messages of that request end
  with the user entry of the new text twice in a row.
\<close>

theorem payload_duplicates_user_text:
  "\<exists>pre rest.
     fst (handle_message api s chat_id user_text) =
       SendAction ''typing'' #
       CompletionCreate
         \<lparr>model = ''gpt-3.5-turbo'',
          messages = pre @ [\<lparr>role = ''user'', content = user_text\<rparr>,
                            \<lparr>role = ''user'', content = user_text\<rparr>],
          max_tokens = 800\<rparr> # rest \<and>
     (\<forall>r. CompletionCreate r \<notin> set rest)"
proof -
  let ?u = "\<lparr>role = ''user'', content = user_text\<rparr>"
  let ?h = "get_history (fst (add_user_message s chat_id user_text)) chat_id"
  have "last12 (get_history s chat_id @ [?u]) \<noteq> []"
    by (simp add: last12_def)
  then have "?h = butlast ?h @ [?u]"
    unfolding get_history_add_user
    by (metis append_butlast_last_id last_last12)
  then obtain pre where pre:
    "messages (request_for s chat_id user_text) = pre @ [?u, ?u]"
    by (simp add: build_messages_eq) (metis append_Cons append_Nil append_assoc)
  have req: "request_for s chat_id user_text =
      \<lparr>model = ''gpt-3.5-turbo'', messages = pre @ [?u, ?u], max_tokens = 800\<rparr>"
    using pre by simp
  have "\<exists>rest. fst (handle_message api s chat_id user_text) =
      SendAction ''typing'' # CompletionCreate (request_for s chat_id user_text) # rest \<and>
      (\<forall>r. CompletionCreate r \<notin> set rest)"
    by (auto simp: handle_message_eq reply_of_def
        split: sum.splits prod.splits api_outcome.splits option.splits)
  then show ?thesis
    unfolding req by blast
qed

text \<open>
  Claim C10. When the \<open>try\<close> statement binds a reply, \<open>handle_message\<close> sends exactly the
  chunks of the reply and appends the reply as the assistant turn that ends the history;
  the list of chunks is empty exactly when the reply is empty. So an empty reply sends no
  message and records an assistant turn of empty content, and a non-empty reply sends at
  least one chunk.
\<close>

theorem empty_reply_sends_nothing:
  assumes "reply_of (api (request_for s chat_id user_text)) = Inr (logged, reply)"
  shows "snd (snd (handle_message api s chat_id user_text)) = None \<and>
    fst (handle_message api s chat_id user_text) =
      [SendAction ''typing'', CompletionCreate (request_for s chat_id user_text)] @ logged @
      map ReplyText (chunks reply) \<and>
    (\<forall>x. (ReplyText x \<in> set (fst (handle_message api s chat_id user_text))) =
          (x \<in> set (chunks reply))) \<and>
    (chunks reply = []) = (reply = []) \<and>
    last (get_history (fst (snd (handle_message api s chat_id user_text))) chat_id) =
      \<lparr>role = ''assistant'', content = reply\<rparr>"
proof -
  have "ReplyText x \<notin> set logged" for x
    using assms by (rule reply_of_logged)
  then show ?thesis
    unfolding handle_message_eq
    by (auto simp: assms chunks_empty_iff get_history_add_assistant last_last12)
qed

theorem empty_reply_sends_nothing_witness:
  "reply_of ((\<lambda>_. Content (Some (ascii ''  ''))) (request_for init_store 42 (ascii ''hello''))) =
     Inr ([], []) \<and>
   fst (handle_message (\<lambda>_. Content (Some (ascii ''  ''))) init_store 42 (ascii ''hello'')) =
     [SendAction ''typing'', CompletionCreate (request_for init_store 42 (ascii ''hello''))] \<and>
   get_history (fst (snd (handle_message (\<lambda>_. Content (Some (ascii ''  ''))) init_store 42
      (ascii ''hello'')))) 42 =
     [\<lparr>role = ''user'', content = ascii ''hello''\<rparr>, \<lparr>role = ''assistant'', content = []\<rparr>]"
proof -
  have h: "reply_of ((\<lambda>_. Content (Some (ascii ''  '')))
      (request_for init_store 42 (ascii ''hello''))) = Inr ([], [])"
    by (simp add: reply_of_def strip_def is_space_def ascii_def)
  have g: "get_history (fst (snd (handle_message (\<lambda>_. Content (Some (ascii ''  ''))) init_store 42
      (ascii ''hello'')))) 42 =
     [\<lparr>role = ''user'', content = ascii ''hello''\<rparr>, \<lparr>role = ''assistant'', content = []\<rparr>]"
    unfolding handle_message_eq h
    by (simp add: get_history_add_assistant get_history_add_user get_history_init last12_def)
  show ?thesis
    using empty_reply_sends_nothing [OF h] h g by simp
qed

section \<open>Commands and isolation\<close>

text \<open>
  Claim C6. \<open>setprompt\<close> without arguments replies with the usage message and leaves the
  whole store as it was; with arguments it stores their join by single spaces as the
  prompt of the identifier, over any earlier one, and changes nothing else.
\<close>

theorem setprompt_usage:
  "setprompt s chat_id [] =
     ([ReplyText (ascii ''Use: /setprompt <your instruction>'')], s, None) \<and>
   (args \<noteq> [] \<longrightarrow>
      setprompt s chat_id args =
        ([ReplyText (ascii ''System prompt set for this chat.'')],
         s\<lparr>system_prompts := (system_prompts s)(chat_id \<mapsto> join (ascii '' '') args)\<rparr>, None) \<and>
      system_prompts (fst (snd (setprompt s chat_id args))) chat_id =
        Some (join (ascii '' '') args))"
  by (simp add: setprompt_def)

theorem setprompt_usage_witness:
  "[ascii ''be'', ascii ''brief''] \<noteq> [] \<and>
   system_prompts (fst (snd (setprompt
      \<lparr>chat_histories = Map.empty, system_prompts = [7 \<mapsto> ascii ''old'']\<rparr> 7
      [ascii ''be'', ascii ''brief'']))) 7 = Some (ascii ''be brief'') \<and>
   system_prompts (fst (snd (setprompt
      \<lparr>chat_histories = Map.empty, system_prompts = [7 \<mapsto> ascii ''old'']\<rparr> 7 []))) 7 =
     Some (ascii ''old'')"
  using setprompt_usage [of "\<lparr>chat_histories = Map.empty, system_prompts = [7 \<mapsto> ascii ''old'']\<rparr>"
      7 "[ascii ''be'', ascii ''brief'']"]
  by (simp add: ascii_def)

text \<open>
  Claim C7. From any store, \<open>clear_history\<close> and \<open>clearprompt\<close> return without an
  exception, also when the identifier has no history or no prompt; after
  \<open>clear_history\<close> the history read for the identifier is empty; after \<open>clearprompt\<close>
  no prompt is stored for it and \<open>build_messages\<close> gives the history followed by the
  user entry, with no system entry.
\<close>

theorem clear_operations:
  "snd (snd (clear_history s chat_id)) = None \<and>
   get_history (fst (snd (clear_history s chat_id))) chat_id = [] \<and>
   snd (snd (clearprompt s chat_id)) = None \<and>
   system_prompts (fst (snd (clearprompt s chat_id))) chat_id = None \<and>
   fst (build_messages (fst (snd (clearprompt s chat_id))) chat_id user_text) =
     get_history s chat_id @ [\<lparr>role = ''user'', content = user_text\<rparr>]"
  by (simp add: clear_history_def clearprompt_def delitem_def pop_default_def get_history_def
      get_default_def build_messages_def split: option.splits)

text \<open>
  Claim C8. An operation on one identifier leaves the history and the prompt of every
  other identifier as they were; the appends, \<open>clear_history\<close> and \<open>handle_message\<close>
  leave all prompts as they were, and \<open>setprompt\<close> and \<open>clearprompt\<close> leave all
  histories as they were.
\<close>

theorem state_isolation:
  assumes "c \<noteq> chat_id"
  shows
    "chat_histories (fst (add_user_message s chat_id txt)) c = chat_histories s c \<and>
     system_prompts (fst (add_user_message s chat_id txt)) = system_prompts s \<and>
     chat_histories (fst (add_assistant_message s chat_id txt)) c = chat_histories s c \<and>
     system_prompts (fst (add_assistant_message s chat_id txt)) = system_prompts s \<and>
     chat_histories (fst (snd (clear_history s chat_id))) c = chat_histories s c \<and>
     system_prompts (fst (snd (clear_history s chat_id))) = system_prompts s \<and>
     system_prompts (fst (snd (setprompt s chat_id args))) c = system_prompts s c \<and>
     chat_histories (fst (snd (setprompt s chat_id args))) = chat_histories s \<and>
     system_prompts (fst (snd (clearprompt s chat_id))) c = system_prompts s c \<and>
     chat_histories (fst (snd (clearprompt s chat_id))) = chat_histories s \<and>
     chat_histories (fst (snd (handle_message api s chat_id txt))) c = chat_histories s c \<and>
     system_prompts (fst (snd (handle_message api s chat_id txt))) = system_prompts s"
proof -
  have "chat_histories (fst (snd (handle_message api s chat_id txt))) c = chat_histories s c \<and>
     system_prompts (fst (snd (handle_message api s chat_id txt))) = system_prompts s"
    using assms
    by (simp add: handle_message_eq add_user_message_eq add_assistant_message_eq
        split: sum.splits prod.splits)
  moreover have
    "system_prompts (fst (snd (clearprompt s chat_id))) c = system_prompts s c \<and>
     chat_histories (fst (snd (clearprompt s chat_id))) = chat_histories s"
    using assms by (simp add: clearprompt_def delitem_def split: option.splits)
  ultimately show ?thesis
    using assms
    by (simp add: add_user_message_eq add_assistant_message_eq clear_history_def
        pop_default_def setprompt_def Let_def)
qed

theorem state_isolation_witness:
  "(2::int) \<noteq> 1 \<and>
   chat_histories (fst (add_user_message
      \<lparr>chat_histories = [1 \<mapsto> [\<lparr>role = ''user'', content = ascii ''a''\<rparr>],
                         2 \<mapsto> [\<lparr>role = ''user'', content = ascii ''b''\<rparr>]],
       system_prompts = [1 \<mapsto> ascii ''p'', 2 \<mapsto> ascii ''q'']\<rparr> 1 (ascii ''x''))) 2 =
     Some [\<lparr>role = ''user'', content = ascii ''b''\<rparr>] \<and>
   system_prompts (fst (snd (clear_history
      \<lparr>chat_histories = [1 \<mapsto> [\<lparr>role = ''user'', content = ascii ''a''\<rparr>],
                         2 \<mapsto> [\<lparr>role = ''user'', content = ascii ''b''\<rparr>]],
       system_prompts = [1 \<mapsto> ascii ''p'', 2 \<mapsto> ascii ''q'']\<rparr> 1))) 1 = Some (ascii ''p'') \<and>
   chat_histories (fst (snd (clearprompt
      \<lparr>chat_histories = [1 \<mapsto> [\<lparr>role = ''user'', content = ascii ''a''\<rparr>],
                         2 \<mapsto> [\<lparr>role = ''user'', content = ascii ''b''\<rparr>]],
       system_prompts = [1 \<mapsto> ascii ''p'', 2 \<mapsto> ascii ''q'']\<rparr> 1))) 1 =
     Some [\<lparr>role = ''user'', content = ascii ''a''\<rparr>] \<and>
   system_prompts (fst (snd (setprompt
      \<lparr>chat_histories = [1 \<mapsto> [\<lparr>role = ''user'', content = ascii ''a''\<rparr>],
                         2 \<mapsto> [\<lparr>role = ''user'', content = ascii ''b''\<rparr>]],
       system_prompts = [1 \<mapsto> ascii ''p'', 2 \<mapsto> ascii ''q'']\<rparr> 1 [ascii ''r'']))) 2 =
     Some (ascii ''q'')"
proof -
  have h: "(2::int) \<noteq> 1"
    by simp
  show ?thesis
    using state_isolation [OF h, of
        "\<lparr>chat_histories = [1 \<mapsto> [\<lparr>role = ''user'', content = ascii ''a''\<rparr>],
                            2 \<mapsto> [\<lparr>role = ''user'', content = ascii ''b''\<rparr>]],
          system_prompts = [1 \<mapsto> ascii ''p'', 2 \<mapsto> ascii ''q'']\<rparr>"
        "ascii ''x''" "[ascii ''r'']"]
    by simp
qed

end
